theory Spec2Isabelle
  imports Main "HOL-Library.Word"
begin

section \<open>Scalar types of the host framework\<close>

text \<open>
  The two headers use the framework's scalar typedefs. \<open>UInt_t\<close> is an unsigned and
  \<open>Int_t\<close> a signed 32-bit integer, \<open>Bool_t\<close> a boolean; \<open>GContext_t\<close> and
  \<open>FontStruct_t\<close> are opaque handles of the windowing system (an unsigned long).
  Arithmetic on them is the machine's: \<open>+\<close> on a word wraps around. An \<open>Int_t\<close>
  is read as a signed number by \<open>sint\<close>, a \<open>UInt_t\<close> as an unsigned one by \<open>unat\<close>.
\<close>

type_synonym UInt_t = "32 word"
type_synonym Int_t = "32 word"
type_synonym Bool_t = bool
type_synonym Handle_t = "64 word"
type_synonym GContext_t = Handle_t
type_synonym FontStruct_t = Handle_t
type_synonym TGString = string

section \<open>TGLabel (gui/inc/TGLabel.h)\<close>

text \<open>
  \<open>TGDimension\<close> is declared in TGDimension.h, which is outside the two headers: the
  constructor \<open>TGDimension(width, height)\<close> stores its two \<open>UInt_t\<close> arguments.
\<close>

record TGDimension =
  fWidth :: UInt_t
  fHeight :: UInt_t

definition TGDimension_ctor :: "UInt_t \<Rightarrow> UInt_t \<Rightarrow> TGDimension" where
  "TGDimension_ctor width height = \<lparr>fWidth = width, fHeight = height\<rparr>"

text \<open>
  The protected data members of \<open>class TGLabel : public TGFrame\<close>, in the order of
  the header. The sub-object of the base class \<open>TGFrame\<close> (declared elsewhere) is the
  field \<open>frame\<close>, of a type left open. \<open>fText\<close> is a pointer to a \<open>TGString\<close>:
  \<open>None\<close> is the null pointer. The static members \<open>fgDefaultFont\<close> and
  \<open>fgDefaultGC\<close> belong to the class, not to an object.
\<close>

record 'frame TGLabel =
  frame :: 'frame
  fText :: "TGString option"
  fTWidth :: UInt_t
  fTHeight :: UInt_t
  fTMode :: Int_t
  fTextChanged :: Bool_t
  fNormGC :: GContext_t
  fFontStruct :: FontStruct_t
  fHasOwnFont :: Bool_t

text \<open>
  \<^verbatim>\<open>virtual TGDimension GetDefaultSize() const { return TGDimension(fTWidth, fTHeight+1); }\<close>
\<close>

definition GetDefaultSize :: "'frame TGLabel \<Rightarrow> TGDimension" where
  "GetDefaultSize l = TGDimension_ctor (fTWidth l) (fTHeight l + 1)"

text \<open>\<^verbatim>\<open>const TGString *GetText() const { return fText; }\<close>\<close>

definition GetText :: "'frame TGLabel \<Rightarrow> TGString option" where
  "GetText l = fText l"

text \<open>\<^verbatim>\<open>void SetTextJustify(Int_t tmode) { fTMode = tmode; }\<close>\<close>

definition SetTextJustify :: "Int_t \<Rightarrow> 'frame TGLabel \<Rightarrow> 'frame TGLabel" where
  "SetTextJustify tmode l = l\<lparr>fTMode := tmode\<rparr>"

text \<open>Two concrete labels, differing in the stored text width only.\<close>

definition labelA :: "unit TGLabel" where
  "labelA = \<lparr>frame = (), fText = Some ''ok'', fTWidth = 10, fTHeight = 12, fTMode = 0,
     fTextChanged = False, fNormGC = 1, fFontStruct = 2, fHasOwnFont = False\<rparr>"

definition labelB :: "unit TGLabel" where
  "labelB = \<lparr>frame = (), fText = Some ''ok'', fTWidth = 20, fTHeight = 12, fTMode = 0,
     fTextChanged = False, fNormGC = 1, fFontStruct = 2, fHasOwnFont = False\<rparr>"

section \<open>RooLagrangianMorphFunc (roofit/roofit/inc/RooLagrangianMorphFunc.h)\<close>

text \<open>
  The header declares the class and its nested class \<open>Config\<close>; the member functions
  with a body in the header are modelled, the others are defined in a source file that
  is not at hand. The classes of the host framework are type parameters: \<open>'al\<close> is
  \<open>RooArgList\<close>, \<open>'d\<close> is \<open>double\<close>, \<open>'lp\<close> is \<open>RooListProxy\<close>, \<open>'sp\<close> is
  \<open>RooSetProxy\<close>, \<open>'cm\<close> is \<open>RooObjCacheManager\<close> and \<open>'ns\<close> is \<open>RooArgSet\<close>.
  A member \<open>_name\<close> of \<open>Config\<close> is the field \<open>cfg_name\<close>, a member \<open>_name\<close> of
  \<open>RooLagrangianMorphFunc\<close> is the field \<open>m_name\<close>. A \<open>std::map\<close> is a map, a
  \<open>std::vector\<close> a list, a pointer that may be null an option.
\<close>

type_synonym 'd ParamSet = "string \<rightharpoonup> 'd"
type_synonym FlagSet = "string \<rightharpoonup> Int_t"
type_synonym 'd ParamMap = "string \<rightharpoonup> 'd ParamSet"
type_synonym FlagMap = "string \<rightharpoonup> FlagSet"

record ('al, 'd) Config =
  cfg_obsName :: string
  cfg_fileName :: string
  cfg_folderlist :: 'al
  cfg_folderNames :: "string list"
  cfg_paramCards :: "'d ParamMap"
  cfg_flagValues :: FlagMap
  cfg_vertices :: "'al list"
  cfg_couplings :: 'al
  cfg_prodCouplings :: 'al
  cfg_decCouplings :: 'al
  cfg_observables :: 'al
  cfg_binWidths :: 'al
  cfg_configDiagrams :: "'al list list"
  cfg_nonInterfering :: "'al list"
  cfg_allowNegativeYields :: Bool_t

text \<open>
  \<^verbatim>\<open>Config() {}\<close>: every member is default-constructed, and
  \<^verbatim>\<open>Bool_t _allowNegativeYields = true;\<close> is the one default member initialiser.
  The argument \<open>nil\<close> is the default-constructed \<open>RooArgList\<close>.
\<close>

definition Config_default :: "'al \<Rightarrow> ('al, 'd) Config" where
  "Config_default nil =
     \<lparr>cfg_obsName = [], cfg_fileName = [], cfg_folderlist = nil, cfg_folderNames = [],
      cfg_paramCards = Map.empty, cfg_flagValues = Map.empty, cfg_vertices = [],
      cfg_couplings = nil, cfg_prodCouplings = nil, cfg_decCouplings = nil,
      cfg_observables = nil, cfg_binWidths = nil, cfg_configDiagrams = [],
      cfg_nonInterfering = [], cfg_allowNegativeYields = True\<rparr>"

text \<open>
  \<^verbatim>\<open>bool IsAllowNegativeYields() const { return this->_allowNegativeYields; }\<close>
\<close>

definition IsAllowNegativeYields :: "('al, 'd) Config \<Rightarrow> bool" where
  "IsAllowNegativeYields c = cfg_allowNegativeYields c"

text \<open>
  The setter \<^verbatim>\<open>void allowNegativeYields(Bool_t allowNegativeYields);\<close> is declared in
  the header without a body, so it has no definition here.
\<close>

text \<open>
  \<^verbatim>\<open>std::vector<std::string> const& getFolderNames() const { return _folderNames; };\<close>
\<close>

definition getFolderNames :: "('al, 'd) Config \<Rightarrow> string list" where
  "getFolderNames c = cfg_folderNames c"

text \<open>
  \<^verbatim>\<open>int nSamples() const { return this->_folderNames.size(); }\<close> of \<open>Config\<close>. The
  size of the vector is converted to \<open>int\<close>: its low 32 bits, read as a signed number.
\<close>

definition Config_nSamples :: "('al, 'd) Config \<Rightarrow> Int_t" where
  "Config_nSamples c = of_nat (length (cfg_folderNames c))"

text \<open>
  The data members of \<open>RooLagrangianMorphFunc\<close> that the header declares, in its order.
  The nested class \<open>CacheElem\<close> is only forward-declared there.
\<close>

record ('al, 'd, 'lp, 'sp, 'cm, 'ns) RooLagrangianMorphFunc =
  m_ownParameters :: bool
  m_cacheMgr :: 'cm
  m_scale :: 'd
  m_sampleMap :: "string \<rightharpoonup> Int_t"
  m_physics :: 'lp
  m_operators :: 'sp
  m_observables :: 'lp
  m_binWidths :: 'lp
  m_flags :: 'lp
  m_config :: "('al, 'd) Config"
  m_diagrams :: "'lp list list"
  m_curNormSet :: "'ns option"
  m_nonInterfering :: "'lp list"

text \<open>
  \<^verbatim>\<open>int nSamples() const {return this->_config.getFolderNames().size(); }\<close> of
  \<open>RooLagrangianMorphFunc\<close>.
\<close>

definition nSamples :: "('al, 'd, 'lp, 'sp, 'cm, 'ns) RooLagrangianMorphFunc \<Rightarrow> Int_t" where
  "nSamples m = of_nat (length (getFolderNames (m_config m)))"

text \<open>A morphing function over a configuration with two sample folders.\<close>

definition exampleConfig :: "(unit, unit) Config" where
  "exampleConfig = (Config_default ())\<lparr>cfg_folderNames := [''SM'', ''BSM'']\<rparr>"

definition exampleMorph :: "(unit, unit, unit, unit, unit, unit) RooLagrangianMorphFunc" where
  "exampleMorph =
     \<lparr>m_ownParameters = False, m_cacheMgr = (), m_scale = (), m_sampleMap = Map.empty,
      m_physics = (), m_operators = (), m_observables = (), m_binWidths = (),
      m_flags = (), m_config = exampleConfig, m_diagrams = [], m_curNormSet = None,
      m_nonInterfering = []\<rparr>"

section \<open>Properties of TGLabel\<close>

text \<open>
  The inline setter \<open>SetTextJustify\<close>: for every label and every \<open>tmode\<close> it
  sets the justification mode \<open>fTMode\<close> to \<open>tmode\<close> and leaves every other field
  unchanged: the text, the text width and height, the changed flag, the graphics context,
  the font, the font-ownership flag, and the inherited frame. What the getters return is
  unchanged too. The other setters of the class (\<open>SetText\<close>, \<open>SetTextFont\<close>,
  \<open>SetTextColor\<close>) are declared without a body, or only forward to one that is, so
  nothing is stated about them.
\<close>

lemma SetTextJustify_frame:
  "fTMode (SetTextJustify tmode l) = tmode
   \<and> fText (SetTextJustify tmode l) = fText l
   \<and> fTWidth (SetTextJustify tmode l) = fTWidth l
   \<and> fTHeight (SetTextJustify tmode l) = fTHeight l
   \<and> fTextChanged (SetTextJustify tmode l) = fTextChanged l
   \<and> fNormGC (SetTextJustify tmode l) = fNormGC l
   \<and> fFontStruct (SetTextJustify tmode l) = fFontStruct l
   \<and> fHasOwnFont (SetTextJustify tmode l) = fHasOwnFont l
   \<and> frame (SetTextJustify tmode l) = frame l
   \<and> GetDefaultSize (SetTextJustify tmode l) = GetDefaultSize l
   \<and> GetText (SetTextJustify tmode l) = GetText l"
  by (simp add: SetTextJustify_def GetDefaultSize_def GetText_def)

text \<open>
  C7: for every label, \<open>GetDefaultSize\<close> returns a dimension whose width is the stored
  text width and whose height is the stored text height plus one. The sum is the
  \<open>UInt_t\<close> sum of the source: read as a natural number, it is taken modulo \<open>2 ^ 32\<close>.
\<close>

theorem GetDefaultSize_dimension:
  "fWidth (GetDefaultSize l) = fTWidth l
   \<and> fHeight (GetDefaultSize l) = fTHeight l + 1
   \<and> unat (fHeight (GetDefaultSize l)) = (unat (fTHeight l) + 1) mod 2 ^ 32"
  by (simp add: GetDefaultSize_def TGDimension_ctor_def unat_word_ariths)

text \<open>
  C2, as stated: the text, the font, the text colour (held by the graphics context), the
  justification mode and the changed flag would be all of a label's own state. They are
  not: \<open>labelA\<close> and \<open>labelB\<close> agree on these five (and on the inherited frame), yet
  they are different labels, with different default sizes.
\<close>

theorem TGLabel_five_components_counterexample:
  "fText labelA = fText labelB
   \<and> fFontStruct labelA = fFontStruct labelB
   \<and> fNormGC labelA = fNormGC labelB
   \<and> fTMode labelA = fTMode labelB
   \<and> fTextChanged labelA = fTextChanged labelB
   \<and> frame labelA = frame labelB
   \<and> labelA \<noteq> labelB
   \<and> GetDefaultSize labelA \<noteq> GetDefaultSize labelB"
  by (simp add: labelA_def labelB_def GetDefaultSize_def TGDimension_ctor_def)

text \<open>
  C2, amended: a label's own state is exactly eight stored components, the text, the
  text width, the text height, the justification mode, the changed flag, the graphics
  context (which holds the text colour), the font and the font-ownership flag. Two labels
  with the same inherited frame that agree on these eight are the same label.
\<close>

theorem TGLabel_eight_components:
  assumes "frame l = frame l'"
    and "fText l = fText l'"
    and "fTWidth l = fTWidth l'"
    and "fTHeight l = fTHeight l'"
    and "fTMode l = fTMode l'"
    and "fTextChanged l = fTextChanged l'"
    and "fNormGC l = fNormGC l'"
    and "fFontStruct l = fFontStruct l'"
    and "fHasOwnFont l = fHasOwnFont l'"
  shows "(l :: 'frame TGLabel) = l'"
  using assms by simp

theorem TGLabel_eight_components_witness:
  "frame labelA = frame (SetTextJustify 0 labelA)
   \<and> fText labelA = fText (SetTextJustify 0 labelA)
   \<and> fTWidth labelA = fTWidth (SetTextJustify 0 labelA)
   \<and> fTHeight labelA = fTHeight (SetTextJustify 0 labelA)
   \<and> fTMode labelA = fTMode (SetTextJustify 0 labelA)
   \<and> fTextChanged labelA = fTextChanged (SetTextJustify 0 labelA)
   \<and> fNormGC labelA = fNormGC (SetTextJustify 0 labelA)
   \<and> fFontStruct labelA = fFontStruct (SetTextJustify 0 labelA)
   \<and> fHasOwnFont labelA = fHasOwnFont (SetTextJustify 0 labelA)
   \<and> labelA = SetTextJustify 0 labelA"
proof -
  have h: "frame labelA = frame (SetTextJustify 0 labelA)"
    "fText labelA = fText (SetTextJustify 0 labelA)"
    "fTWidth labelA = fTWidth (SetTextJustify 0 labelA)"
    "fTHeight labelA = fTHeight (SetTextJustify 0 labelA)"
    "fTMode labelA = fTMode (SetTextJustify 0 labelA)"
    "fTextChanged labelA = fTextChanged (SetTextJustify 0 labelA)"
    "fNormGC labelA = fNormGC (SetTextJustify 0 labelA)"
    "fFontStruct labelA = fFontStruct (SetTextJustify 0 labelA)"
    "fHasOwnFont labelA = fHasOwnFont (SetTextJustify 0 labelA)"
    by (simp_all add: labelA_def SetTextJustify_def)
  from TGLabel_eight_components [OF h] have "labelA = SetTextJustify 0 labelA" .
  with h show ?thesis by simp
qed

section \<open>Properties of RooLagrangianMorphFunc\<close>

lemma sint_of_nat_Int_t: "n < 2 ^ 31 \<Longrightarrow> sint (of_nat n :: Int_t) = int n"
  by (simp add: signed_of_nat signed_take_bit_int_eq_self)

text \<open>
  C8: for every morphing function, its own \<open>nSamples\<close> returns the same value as
  \<open>nSamples\<close> of its configuration, the number of stored folder names converted to
  \<open>int\<close>; below \<open>2 ^ 31\<close> names the conversion is exact.
\<close>

theorem nSamples_equivalent:
  "nSamples m = Config_nSamples (m_config m)
   \<and> nSamples m = of_nat (length (cfg_folderNames (m_config m)))
   \<and> (length (cfg_folderNames (m_config m)) < 2 ^ 31 \<longrightarrow>
        sint (nSamples m) = int (length (cfg_folderNames (m_config m)))
        \<and> sint (Config_nSamples (m_config m)) = int (length (cfg_folderNames (m_config m))))"
  by (simp add: nSamples_def Config_nSamples_def getFolderNames_def sint_of_nat_Int_t)

theorem nSamples_equivalent_witness:
  "length (cfg_folderNames (m_config exampleMorph)) < 2 ^ 31
   \<and> nSamples exampleMorph = Config_nSamples (m_config exampleMorph)
   \<and> nSamples exampleMorph = 2
   \<and> sint (nSamples exampleMorph) = 2
   \<and> sint (Config_nSamples (m_config exampleMorph)) = 2"
proof -
  have len: "length (cfg_folderNames (m_config exampleMorph)) = 2"
    by (simp add: exampleMorph_def exampleConfig_def)
  then have h: "length (cfg_folderNames (m_config exampleMorph)) < 2 ^ 31"
    by simp
  note eq = nSamples_equivalent [of exampleMorph]
  from eq have same: "nSamples exampleMorph = Config_nSamples (m_config exampleMorph)"
    by (rule conjunct1)
  from eq have "nSamples exampleMorph = of_nat (length (cfg_folderNames (m_config exampleMorph)))"
    by blast
  with len have two: "nSamples exampleMorph = 2"
    by simp
  from eq h have "sint (nSamples exampleMorph) = int (length (cfg_folderNames (m_config exampleMorph)))"
    and "sint (Config_nSamples (m_config exampleMorph)) = int (length (cfg_folderNames (m_config exampleMorph)))"
    by blast+
  with len have signed: "sint (nSamples exampleMorph) = 2"
    "sint (Config_nSamples (m_config exampleMorph)) = 2"
    by simp_all
  from h same two signed show ?thesis
    by (intro conjI)
qed

text \<open>
  For a default-constructed configuration \<open>IsAllowNegativeYields\<close> returns true:
  negative yields are allowed by default.
\<close>

lemma IsAllowNegativeYields_default: "IsAllowNegativeYields (Config_default nil)"
  by (simp add: IsAllowNegativeYields_def Config_default_def)

end
